theory Spec2Isabelle
  imports Main
begin

section \<open>Go values used by the process manager\<close>

text \<open>
  A Go \<^verbatim>\<open>[]byte\<close> and a Go \<^verbatim>\<open>string\<close> are both sequences of bytes; a nil slice is the
  empty sequence (the source only ever asks for \<^verbatim>\<open>len\<close>).
\<close>

type_synonym bytes = string

text \<open>
  Error values. \<^verbatim>\<open>cmdExecution.run\<close> tells a \<^verbatim>\<open>*exec.ExitError\<close> from every other
  error by a type assertion, so it has a constructor of its own, carrying \<^verbatim>\<open>ExitCode()\<close>,
  the \<^verbatim>\<open>Stderr\<close> field and the text of \<^verbatim>\<open>Error()\<close>. \<open>WrapError msg err\<close> is the value
  of \<^verbatim>\<open>fmt.Errorf\<close> with a \<^verbatim>\<open>%w\<close> verb: the formatted text and the wrapped error.
  \<open>ErrorString\<close> is every other error, given by its text.
\<close>

datatype error =
    ExitError int bytes string
  | ErrorString string
  | WrapError string error

fun Error :: "error \<Rightarrow> string" where
  "Error (ExitError code saved state) = state"
| "Error (ErrorString msg) = msg"
| "Error (WrapError msg err) = msg"

fun Unwrap :: "error \<Rightarrow> error option" where
  "Unwrap (WrapError msg err) = Some err"
| "Unwrap err = None"

text \<open>The \<^verbatim>\<open>%d\<close> verb of \<^verbatim>\<open>fmt\<close>: a decimal numeral, with a sign when negative.\<close>

fun digits :: "nat \<Rightarrow> string" where
  "digits n =
     (if n < 10 then [''0123456789'' ! n]
      else digits (n div 10) @ [''0123456789'' ! (n mod 10)])"

definition fmt_d :: "int \<Rightarrow> string" where
  "fmt_d i = (if i < 0 then CHR ''-'' # digits (nat (- i)) else digits (nat i))"

text \<open>
  The functions of other packages that the source calls and that are no part of it:
  \<^verbatim>\<open>execabs.LookPath\<close>, \<^verbatim>\<open>shellwords.Parse\<close> and the quoting of the \<^verbatim>\<open>%q\<close> verb.
  They are parameters of the model.
\<close>

record library =
  LookPath :: "string \<Rightarrow> error + string"
  Parse :: "string \<Rightarrow> error + string list"
  Quote :: "string \<Rightarrow> string"

section \<open>What the operating system does with one command\<close>

text \<open>
  A \<open>process\<close> is the behaviour of the operating system and of \<^verbatim>\<open>os/exec\<close> for one
  \<^verbatim>\<open>exec.Cmd\<close>: whether \<^verbatim>\<open>StdinPipe\<close> and the write to the pipe fail, whether running
  fails for a reason other than the exit status (\<open>run_err\<close>), what the child writes to
  its two output streams and in which order, its exit code (negative when it was
  killed by a signal), the text of its exit state, and the part of its standard error
  that \<^verbatim>\<open>Output\<close> keeps in \<^verbatim>\<open>ExitError.Stderr\<close>.
\<close>

datatype stream = Stdout | Stderr

record process =
  pipe_err :: "error option"
  write_err :: "error option"
  run_err :: "error option"
  written :: "(stream \<times> bytes) list"
  exit_code :: int
  exit_state :: string
  exit_stderr :: bytes

definition collected :: "(stream \<Rightarrow> bool) \<Rightarrow> process \<Rightarrow> bytes" where
  "collected keep p = concat (map snd (filter (\<lambda>w. keep (fst w)) (written p)))"

definition run_result :: "process \<Rightarrow> bytes \<Rightarrow> error option" where
  "run_result p saved =
     (case run_err p of
        Some err \<Rightarrow> Some err
      | None \<Rightarrow>
          if exit_code p = 0 then None
          else Some (ExitError (exit_code p) saved (exit_state p)))"

text \<open>
  \<^verbatim>\<open>Cmd.Output\<close> collects standard output alone and, \<^verbatim>\<open>Cmd.Stderr\<close> being nil, stores
  standard error in the \<^verbatim>\<open>ExitError\<close>; \<^verbatim>\<open>Cmd.CombinedOutput\<close> sends both streams to
  one buffer and stores nothing in the \<^verbatim>\<open>ExitError\<close>.
\<close>

definition Output :: "process \<Rightarrow> bytes \<times> error option" where
  "Output p = (collected (\<lambda>s. s = Stdout) p, run_result p (exit_stderr p))"

definition CombinedOutput :: "process \<Rightarrow> bytes \<times> error option" where
  "CombinedOutput p = (collected (\<lambda>s. True) p, run_result p [])"

section \<open>The execution unit\<close>

record cmdExecution =
  cmd :: string
  args :: "string list"
  stdin :: string
  combineOutput :: bool

text \<open>
  The calls that \<^verbatim>\<open>cmdExecution.run\<close> makes on \<^verbatim>\<open>os/exec\<close>, in the order it makes them.
  The child process is started inside \<^verbatim>\<open>Output\<close> or \<^verbatim>\<open>CombinedOutput\<close>.
\<close>

datatype call =
    Command string "string list"
  | StdinPipe
  | WriteString bytes
  | Close
  | CallOutput
  | CallCombinedOutput

fun starts_process :: "call \<Rightarrow> bool" where
  "starts_process CallOutput = True"
| "starts_process CallCombinedOutput = True"
| "starts_process c = False"

text \<open>
  \<^verbatim>\<open>cmdExecution.run\<close>: the calls made, the bytes returned and the error returned.
\<close>

definition cmdExecution_run ::
  "library \<Rightarrow> cmdExecution \<Rightarrow> process \<Rightarrow> call list \<times> bytes \<times> error option" where
  "cmdExecution_run L e p =
     (case pipe_err p of
        Some err \<Rightarrow>
          ([Command (cmd e) (cmdExecution.args e), StdinPipe],
           [],
           Some (WrapError
             (''could not make stdin pipe for '' @ cmd e @ '' process: '' @ Error err) err))
      | None \<Rightarrow>
     (case write_err p of
        Some err \<Rightarrow>
          ([Command (cmd e) (cmdExecution.args e), StdinPipe, WriteString (stdin e), Close],
           [],
           Some (WrapError
             (''could not write to stdin of '' @ cmd e @ '' process: '' @ Error err) err))
      | None \<Rightarrow>
          let calls = [Command (cmd e) (cmdExecution.args e), StdinPipe,
                       WriteString (stdin e), Close,
                       if cmdExecution.combineOutput e then CallCombinedOutput
                       else CallOutput];
              (stdout, err) = (if cmdExecution.combineOutput e then CombinedOutput p
                               else Output p)
          in (case err of
                None \<Rightarrow> (calls, stdout, None)
              | Some (ExitError code saved state) \<Rightarrow>
                  let stderr = (if cmdExecution.combineOutput e then stdout else saved)
                  in if code < 0 then
                       (calls, [],
                        Some (ErrorString
                          (cmd e @ '' was terminated. stderr: '' @ Quote L stderr)))
                     else if length stdout = 0 then
                       (calls, [],
                        Some (ErrorString
                          (cmd e @ '' exited with status '' @ fmt_d code
                           @ '' but stdout was empty. stderr: '' @ Quote L stderr)))
                     else (calls, stdout, None)
              | Some other \<Rightarrow> (calls, [], Some other))))"

text \<open>The stream that the unit captures, and the standard error it reports on failure.\<close>

abbreviation captured :: "cmdExecution \<Rightarrow> process \<Rightarrow> bytes" where
  "captured e p \<equiv>
     fst (if cmdExecution.combineOutput e then CombinedOutput p else Output p)"

abbreviation reported_stderr :: "cmdExecution \<Rightarrow> process \<Rightarrow> bytes" where
  "reported_stderr e p \<equiv>
     (if cmdExecution.combineOutput e then captured e p else exit_stderr p)"

section \<open>The pool, the command handles and the goroutines\<close>

text \<open>
  \<^verbatim>\<open>concurrentProcess\<close>: the weighted semaphore (its size and the slots in use) and the
  counter of the \<^verbatim>\<open>sync.WaitGroup\<close>. The context is \<^verbatim>\<open>context.Background()\<close> and has
  no state.
\<close>

record concurrentProcess =
  sema_size :: int
  sema_cur :: int
  wg :: int

definition newConcurrentProcess :: "int \<Rightarrow> concurrentProcess" where
  "newConcurrentProcess par = \<lparr>sema_size = par, sema_cur = 0, wg = 0\<rparr>"

text \<open>\<^verbatim>\<open>errgroup.Group\<close>: its own wait group and the first error it was given.\<close>

record errgroup =
  eg_wg :: int
  eg_err :: "error option"

text \<open>
  \<^verbatim>\<open>externalCommand\<close>. A state below holds one pool, and every handle of the state
  refers to it, so the field \<^verbatim>\<open>proc\<close> is not stored.
\<close>

record externalCommand =
  eg :: errgroup
  exe :: string
  args :: "string list"
  combineOutput :: bool

type_synonym callback = "bytes \<Rightarrow> error option \<Rightarrow> error option"

text \<open>
  Where a goroutine started by \<^verbatim>\<open>concurrentProcess.run\<close> stands: before
  \<^verbatim>\<open>sema.Acquire\<close>, before \<^verbatim>\<open>exec.run()\<close>, before \<^verbatim>\<open>sema.Release\<close>, before the
  callback, before the deferred \<^verbatim>\<open>proc.wg.Done()\<close> (the function is returning the error
  held), before the error group takes the returned error, or finished.
\<close>

datatype pc =
    AtAcquire
  | AtExec
  | AtRelease bytes "error option"
  | AtCallback bytes "error option"
  | AtWgDone "error option"
  | AtEgDone "error option"
  | Finished

record goroutine =
  g_cmd :: nat
  g_exec :: cmdExecution
  g_callback :: callback
  g_pc :: pc

text \<open>
  What has happened, in order. Every event names its goroutine; \<open>Ran\<close> holds the calls
  made by \<^verbatim>\<open>exec.run()\<close> and what it returned, \<open>Called\<close> the arguments and the result
  of the callback, and \<open>Recorded\<close> the handle whose error group took the result.
\<close>

datatype event =
    Scheduled nat
  | Acquired nat
  | AcquireFailed nat error
  | Ran nat "call list" bytes "error option"
  | Released nat
  | Called nat bytes "error option" "error option"
  | BarrierDone nat
  | Recorded nat nat "error option"

record state =
  proc :: concurrentProcess
  cmds :: "externalCommand list"
  goroutines :: "goroutine list"
  trace :: "event list"

definition start :: "int \<Rightarrow> state" where
  "start par = \<lparr>proc = newConcurrentProcess par, cmds = [], goroutines = [], trace = []\<rparr>"

subsection \<open>Resolving the executable and making a handle\<close>

definition resolveExternalCommand :: "library \<Rightarrow> string \<Rightarrow> error + string \<times> string list" where
  "resolveExternalCommand L name =
     (case LookPath L name of
        Inr c \<Rightarrow> Inr (c, [])
      | Inl err \<Rightarrow>
          (case Parse L name of
             Inr (a # rest) \<Rightarrow>
               (case LookPath L a of
                  Inr c \<Rightarrow> Inr (c, rest)
                | Inl err' \<Rightarrow> Inl err)
           | Inr [] \<Rightarrow> Inl err
           | Inl err' \<Rightarrow> Inl err))"

text \<open>
  \<^verbatim>\<open>newCommandRunner\<close> returns the error and leaves the state as it was, or allocates the
  handle and returns its address (its index in \<open>cmds\<close>).
\<close>

definition newCommandRunner ::
  "library \<Rightarrow> string \<Rightarrow> bool \<Rightarrow> state \<Rightarrow> (error + nat) \<times> state" where
  "newCommandRunner L name combine s =
     (case resolveExternalCommand L name of
        Inl err \<Rightarrow> (Inl err, s)
      | Inr (p, as) \<Rightarrow>
          (Inr (length (cmds s)),
           s\<lparr>cmds := cmds s @
               [\<lparr>eg = \<lparr>eg_wg = 0, eg_err = None\<rparr>, exe = p, args = as,
                 combineOutput = combine\<rparr>]\<rparr>))"

subsection \<open>Scheduling a unit\<close>

text \<open>The unit that \<^verbatim>\<open>externalCommand.run\<close> builds.\<close>

definition make_exec :: "externalCommand \<Rightarrow> string list \<Rightarrow> string \<Rightarrow> cmdExecution" where
  "make_exec c extra input =
     (let as = (if length (args c) > 0 then ([] @ args c) @ extra else extra)
      in \<lparr>cmd = exe c, args = as, stdin = input, combineOutput = combineOutput c\<rparr>)"

text \<open>
  \<^verbatim>\<open>concurrentProcess.run\<close> on the caller's side: \<^verbatim>\<open>proc.wg.Add(1)\<close>, then \<^verbatim>\<open>eg.Go\<close>,
  which adds one to the group's wait group and starts the goroutine.
\<close>

definition concurrentProcess_run :: "nat \<Rightarrow> cmdExecution \<Rightarrow> callback \<Rightarrow> state \<Rightarrow> state" where
  "concurrentProcess_run h e f s =
     (let c = cmds s ! h
      in s\<lparr>proc := (proc s)\<lparr>wg := wg (proc s) + 1\<rparr>,
           cmds := (cmds s)[h := c\<lparr>eg := (eg c)\<lparr>eg_wg := eg_wg (eg c) + 1\<rparr>\<rparr>],
           goroutines := goroutines s @ [\<lparr>g_cmd = h, g_exec = e, g_callback = f, g_pc = AtAcquire\<rparr>],
           trace := trace s @ [Scheduled (length (goroutines s))]\<rparr>)"

definition externalCommand_run ::
  "nat \<Rightarrow> string list \<Rightarrow> string \<Rightarrow> callback \<Rightarrow> state \<Rightarrow> state option" where
  "externalCommand_run h extra input f s =
     (if h < length (cmds s)
      then Some (concurrentProcess_run h (make_exec (cmds s ! h) extra input) f s)
      else None)"

subsection \<open>The steps of a goroutine\<close>

definition at :: "state \<Rightarrow> nat \<Rightarrow> pc option" where
  "at s g = (if g < length (goroutines s) then Some (g_pc (goroutines s ! g)) else None)"

definition goto :: "nat \<Rightarrow> pc \<Rightarrow> event \<Rightarrow> state \<Rightarrow> state" where
  "goto g l ev s =
     s\<lparr>goroutines := (goroutines s)[g := (goroutines s ! g)\<lparr>g_pc := l\<rparr>],
       trace := trace s @ [ev]\<rparr>"

text \<open>
  \<^verbatim>\<open>sema.Acquire(ctx, 1)\<close>: it returns nil when a slot is free and takes it, it blocks
  when none is, and an error returned by it ends the function with the wrapped error.
\<close>

definition acquire :: "library \<Rightarrow> nat \<Rightarrow> error option \<Rightarrow> state \<Rightarrow> state option" where
  "acquire L g res s =
     (case at s g of
        Some AtAcquire \<Rightarrow>
          (case res of
             None \<Rightarrow>
               if sema_cur (proc s) + 1 \<le> sema_size (proc s)
               then Some (goto g AtExec (Acquired g)
                           (s\<lparr>proc := (proc s)\<lparr>sema_cur := sema_cur (proc s) + 1\<rparr>\<rparr>))
               else None
           | Some err \<Rightarrow>
               Some (goto g
                 (AtWgDone (Some (WrapError
                    (''could not acquire semaphore to run ''
                      @ Quote L (cmd (g_exec (goroutines s ! g))) @ '': '' @ Error err) err)))
                 (AcquireFailed g err) s))
      | _ \<Rightarrow> None)"

definition exec_run :: "library \<Rightarrow> nat \<Rightarrow> process \<Rightarrow> state \<Rightarrow> state option" where
  "exec_run L g p s =
     (case at s g of
        Some AtExec \<Rightarrow>
          (case cmdExecution_run L (g_exec (goroutines s ! g)) p of
             (calls, stdout, err) \<Rightarrow> Some (goto g (AtRelease stdout err) (Ran g calls stdout err) s))
      | _ \<Rightarrow> None)"

definition release :: "nat \<Rightarrow> state \<Rightarrow> state option" where
  "release g s =
     (case at s g of
        Some (AtRelease stdout err) \<Rightarrow>
          Some (goto g (AtCallback stdout err) (Released g)
                 (s\<lparr>proc := (proc s)\<lparr>sema_cur := sema_cur (proc s) - 1\<rparr>\<rparr>))
      | _ \<Rightarrow> None)"

definition call_back :: "nat \<Rightarrow> state \<Rightarrow> state option" where
  "call_back g s =
     (case at s g of
        Some (AtCallback stdout err) \<Rightarrow>
          (let r = g_callback (goroutines s ! g) stdout err
           in Some (goto g (AtWgDone r) (Called g stdout err r) s))
      | _ \<Rightarrow> None)"

definition wg_done :: "nat \<Rightarrow> state \<Rightarrow> state option" where
  "wg_done g s =
     (case at s g of
        Some (AtWgDone r) \<Rightarrow>
          Some (goto g (AtEgDone r) (BarrierDone g)
                 (s\<lparr>proc := (proc s)\<lparr>wg := wg (proc s) - 1\<rparr>\<rparr>))
      | _ \<Rightarrow> None)"

text \<open>
  The wrapper of \<^verbatim>\<open>errgroup.Group.Go\<close>: a non-nil error is stored through \<^verbatim>\<open>errOnce\<close>,
  so only if none was stored before; then \<^verbatim>\<open>g.done()\<close>.
\<close>

definition eg_take :: "error option \<Rightarrow> errgroup \<Rightarrow> errgroup" where
  "eg_take r grp =
     \<lparr>eg_wg = eg_wg grp - 1,
      eg_err = (case r of
                  None \<Rightarrow> eg_err grp
                | Some err \<Rightarrow> (if eg_err grp = None then Some err else eg_err grp))\<rparr>"

definition eg_done :: "nat \<Rightarrow> state \<Rightarrow> state option" where
  "eg_done g s =
     (case at s g of
        Some (AtEgDone r) \<Rightarrow>
          (let h = g_cmd (goroutines s ! g); c = cmds s ! h
           in Some (goto g Finished (Recorded g h r)
                     (s\<lparr>cmds := (cmds s)[h := c\<lparr>eg := eg_take r (eg c)\<rparr>]\<rparr>)))
      | _ \<Rightarrow> None)"

subsection \<open>Runs\<close>

datatype action =
    NewCommandRunner string bool
  | Run nat "string list" string callback
  | Acquire nat "error option"
  | Exec nat process
  | Release nat
  | Callback nat
  | WgDone nat
  | EgDone nat

fun step :: "library \<Rightarrow> state \<Rightarrow> action \<Rightarrow> state option" where
  "step L s (NewCommandRunner name combine) = Some (snd (newCommandRunner L name combine s))"
| "step L s (Run h extra input f) = externalCommand_run h extra input f s"
| "step L s (Acquire g res) = acquire L g res s"
| "step L s (Exec g p) = exec_run L g p s"
| "step L s (Release g) = release g s"
| "step L s (Callback g) = call_back g s"
| "step L s (WgDone g) = wg_done g s"
| "step L s (EgDone g) = eg_done g s"

fun run_actions :: "library \<Rightarrow> state \<Rightarrow> action list \<Rightarrow> state option" where
  "run_actions L s [] = Some s"
| "run_actions L s (a # as) =
     (case step L s a of None \<Rightarrow> None | Some s' \<Rightarrow> run_actions L s' as)"

subsection \<open>Waiting\<close>

text \<open>
  \<^verbatim>\<open>WaitGroup.Wait\<close> returns when the counter is zero and blocks otherwise: \<open>None\<close> is
  a wait that cannot return in this state.
\<close>

definition concurrentProcess_wait :: "state \<Rightarrow> unit option" where
  "concurrentProcess_wait s = (if wg (proc s) = 0 then Some () else None)"

definition externalCommand_wait :: "nat \<Rightarrow> state \<Rightarrow> error option option" where
  "externalCommand_wait h s =
     (if h < length (cmds s) \<and> eg_wg (eg (cmds s ! h)) = 0
      then Some (eg_err (eg (cmds s ! h)))
      else None)"

section \<open>Concrete inputs\<close>

text \<open>
  A search path that holds \<^verbatim>\<open>echo\<close> and \<^verbatim>\<open>ls\<close>, a tokenizer that knows one command line
  and one line with an unterminated quote, and quoting by double quotes.
\<close>

definition not_found :: error where
  "not_found = ErrorString ''executable file not found in $PATH''"

definition parse_failed :: error where
  "parse_failed = ErrorString ''invalid command line string''"

definition broken_line :: string where
  "broken_line = [CHR 0x27] @ ''broken'' @ [CHR 0x27, CHR '' '', CHR 0x27] @ ''arg''"

definition lib0 :: library where
  "lib0 = \<lparr>LookPath = (\<lambda>n. if n = ''echo'' then Inr ''/bin/echo''
                          else if n = ''ls'' then Inr ''/bin/ls''
                          else Inl not_found),
           Parse = (\<lambda>l. if l = ''echo hello'' then Inr [''echo'', ''hello'']
                        else if l = [] then Inr []
                        else if l = broken_line then Inl parse_failed
                        else Inr [l]),
           Quote = (\<lambda>t. [CHR 0x22] @ t @ [CHR 0x22])\<rparr>"

definition proc_ok :: "(stream \<times> bytes) list \<Rightarrow> process" where
  "proc_ok ws = \<lparr>pipe_err = None, write_err = None, run_err = None,
      written = ws, exit_code = 0, exit_state = ''exit status 0'', exit_stderr = []\<rparr>"

definition proc_exit :: "int \<Rightarrow> (stream \<times> bytes) list \<Rightarrow> process" where
  "proc_exit n ws = \<lparr>pipe_err = None, write_err = None, run_err = None,
      written = ws, exit_code = n,
      exit_state = (if n < 0 then ''signal: killed'' else ''exit status '' @ fmt_d n),
      exit_stderr = concat (map snd (filter (\<lambda>w. fst w = Stderr) ws))\<rparr>"

definition unit_ls :: cmdExecution where
  "unit_ls = \<lparr>cmd = ''/bin/ls'', args = [''nowhere''], stdin = [], combineOutput = False\<rparr>"

lemmas fixture_defs =
  lib0_def proc_ok_def proc_exit_def unit_ls_def not_found_def parse_failed_def broken_line_def

section \<open>Properties of the execution unit\<close>

lemma run_ok_unfold:
  assumes "pipe_err p = None" and "write_err p = None" and "run_err p = None"
  shows "snd (cmdExecution_run L e p) =
     (if exit_code p = 0 then (captured e p, None)
      else if exit_code p < 0 then
        ([], Some (ErrorString (cmd e @ '' was terminated. stderr: ''
                                @ Quote L (reported_stderr e p))))
      else if captured e p = [] then
        ([], Some (ErrorString (cmd e @ '' exited with status '' @ fmt_d (exit_code p)
                                @ '' but stdout was empty. stderr: ''
                                @ Quote L (reported_stderr e p))))
      else (captured e p, None))"
  using assms
  by (simp add: cmdExecution_run_def Output_def CombinedOutput_def run_result_def Let_def)

text \<open>
  C1. When the pipe and the write succeed and the command runs, \<^verbatim>\<open>cmdExecution.run\<close>
  classifies the outcome: a negative exit code (killed by a signal) gives an error saying
  that the command was terminated, with the quoted standard error; a positive exit code
  with nothing captured gives an error with the exit code, the words
  \<^verbatim>\<open>but stdout was empty\<close> and the quoted standard error; a positive exit code with
  something captured gives what was captured and no error; exit code zero gives what was
  captured and no error.
\<close>

theorem run_classifies_outcome:
  assumes "pipe_err p = None" and "write_err p = None" and "run_err p = None"
  shows "(exit_code p < 0 \<longrightarrow>
            snd (cmdExecution_run L e p) =
              ([], Some (ErrorString (cmd e @ '' was terminated. stderr: ''
                                      @ Quote L (reported_stderr e p)))))
       \<and> (0 < exit_code p \<and> captured e p = [] \<longrightarrow>
            snd (cmdExecution_run L e p) =
              ([], Some (ErrorString (cmd e @ '' exited with status '' @ fmt_d (exit_code p)
                                      @ '' but stdout was empty. stderr: ''
                                      @ Quote L (reported_stderr e p)))))
       \<and> (0 < exit_code p \<and> captured e p \<noteq> [] \<longrightarrow>
            snd (cmdExecution_run L e p) = (captured e p, None))
       \<and> (exit_code p = 0 \<longrightarrow>
            snd (cmdExecution_run L e p) = (captured e p, None))"
  using run_ok_unfold [OF assms, of L e] by auto

theorem run_classifies_outcome_witness:
  "snd (cmdExecution_run lib0 unit_ls (proc_exit (- 1) [(Stderr, ''oops'')])) =
     ([], Some (ErrorString (''/bin/ls was terminated. stderr: ''
                              @ [CHR 0x22] @ ''oops'' @ [CHR 0x22])))
   \<and> snd (cmdExecution_run lib0 unit_ls (proc_exit 2 [(Stderr, ''no such file'')])) =
     ([], Some (ErrorString (''/bin/ls exited with status 2 but stdout was empty. stderr: ''
                              @ [CHR 0x22] @ ''no such file'' @ [CHR 0x22])))
   \<and> snd (cmdExecution_run lib0 unit_ls
            (proc_exit 1 [(Stdout, ''found''), (Stderr, ''warn'')])) = (''found'', None)
   \<and> snd (cmdExecution_run lib0 unit_ls (proc_ok [(Stdout, ''a''), (Stderr, ''b'')])) =
     (''a'', None)"
  using run_classifies_outcome [of "proc_exit (- 1) [(Stderr, ''oops'')]" lib0 unit_ls]
    run_classifies_outcome [of "proc_exit 2 [(Stderr, ''no such file'')]" lib0 unit_ls]
    run_classifies_outcome [of "proc_exit 1 [(Stdout, ''found''), (Stderr, ''warn'')]" lib0 unit_ls]
    run_classifies_outcome [of "proc_ok [(Stdout, ''a''), (Stderr, ''b'')]" lib0 unit_ls]
  by (simp add: fixture_defs Output_def CombinedOutput_def collected_def run_result_def fmt_d_def)

end
